theory Spec2Isabelle
  imports Main
begin

section \<open>Values shared by both variants of the request form\<close>

text \<open>
  The repository holds two variants of one React component, \<open>SISRequestForm\<close>:
  the upload-first variant (Strategy A, \<^verbatim>\<open>src/unnamed/part_000\<close>) and the write-first
  variant (Strategy B, \<^verbatim>\<open>src/unnamed/part_001\<close>). Both talk to Firestore and to
  Firebase Storage. The model keeps the component state (the four \<open>useState\<close> cells and
  the form values), the contents of the two backends, and the list of calls the component
  makes, in the order it makes them. Everything the outside world decides (the clock, how
  an upload ends, what the backends answer) is an explicit argument, \<open>env\<close>.
\<close>

datatype jsval = JNull | JStr string

type_synonym document = "(string \<times> jsval) list"

record js_error =
  code :: "string option"
  message :: "string option"

record File =
  name :: string
  size_bytes :: nat

datatype sis_type = Standard | Vanilla | Customized

record FormData =
  email :: string
  requestDate :: string
  kamName :: string
  brandName :: string
  vendorName :: string
  sisType :: sis_type
  retoolLink :: string
  goLiveDate :: string

datatype upload_event = Completed | Errored js_error

datatype effect =
    Toast_error string
  | Toast_success string
  | UploadBytesResumable string File
  | Cancel string
  | SetTimeout nat
  | ClearTimeout
  | GetDownloadURL string
  | AddDoc document
  | UpdateDoc string document

text \<open>
  The continuation of one run of \<open>onSubmit\<close> suspended at its first \<open>await\<close>, with the
  values its closure captured: Strategy A waits for the upload promise (form data, the
  file, the storage path of \<open>logoRef\<close>); Strategy B waits for \<open>addDoc\<close> (the file if
  any, and \<open>basePayload\<close>).
\<close>

datatype pending =
    AwaitUpload FormData File string
  | AwaitAddDoc "File option" document

text \<open>A background upload of Strategy B: \<open>docRef.id\<close>, the storage path, the file.\<close>

type_synonym bg_task = "string \<times> string \<times> File"

record app =
  isSubmitting :: bool
  brandLogo :: "File option"
  logoPreview :: jsval
  isSubmitted :: bool
  formValues :: "string \<rightharpoonup> string"
  shownSubmitting :: bool
  shownSubmitted :: bool
  shownLogo :: "File option"
  suspended :: "pending list"
  displayTimers :: "nat list"
  cancelled :: "(string \<times> File) list"
  bgUploads :: "bg_task list"
  docs :: "(string \<times> document) list"
  blobs :: "(string \<times> File) list"
  effects :: "effect list"

text \<open>
  The first five fields are the component's state. The \<open>shown\<close> fields are what the last
  render saw of it: the \<open>disabled\<close> attribute of the button, whether the success card
  replaced the form, and the \<open>brandLogo\<close> in the closure of \<open>onSubmit\<close>. A state change
  made after an \<open>await\<close> or in a timer reaches them only with the next render.
  \<open>suspended\<close> holds the runs of \<open>onSubmit\<close> that are waiting, \<open>displayTimers\<close> the
  pending timers of the success card, \<open>cancelled\<close> the Strategy A upload tasks the timer
  cancelled (their observers stay registered), \<open>bgUploads\<close> the running Strategy B
  uploads.

  \<open>docs\<close> is the \<open>sisRequests\<close> collection, \<open>blobs\<close> the bucket: an object is in the
  bucket once its upload task has signalled completion. \<open>effects\<close> lists the notices shown
  and the calls made, oldest first.

  What the outside world decides during one submission. \<open>upload\<close> is the signal of the
  upload task: \<open>Some Completed\<close>, \<open>Some (Errored e)\<close>, or \<open>None\<close> when the task
  signals nothing (in Strategy A: nothing before the 25 s timer fires).
\<close>

record env =
  now_ms :: nat
  createdAt :: string
  upload :: "upload_event option"
  downloadURL :: "string \<Rightarrow> js_error + string"
  addDocResult :: "js_error + string"
  updateDocResult :: "js_error option"

section \<open>String helpers of the JavaScript runtime\<close>

fun startsWith :: "string \<Rightarrow> string \<Rightarrow> bool" where
  "startsWith s [] = True"
| "startsWith [] (c # cs) = False"
| "startsWith (x # xs) (c # cs) = (x = c \<and> startsWith xs cs)"

fun str_includes :: "string \<Rightarrow> string \<Rightarrow> bool" where
  "str_includes [] n = (n = [])"
| "str_includes (x # xs) n = (startsWith (x # xs) n \<or> str_includes xs n)"

definition lower_table :: "(char \<times> char) list" where
  "lower_table = zip ''ABCDEFGHIJKLMNOPQRSTUVWXYZ'' ''abcdefghijklmnopqrstuvwxyz''"

definition lower_char :: "char \<Rightarrow> char" where
  "lower_char c = (case map_of lower_table c of Some d \<Rightarrow> d | None \<Rightarrow> c)"

definition toLowerCase :: "string \<Rightarrow> string" where
  "toLowerCase s = map lower_char s"

text \<open>\<open>x || d\<close> on an optional string: \<open>undefined\<close> and the empty string are falsy.\<close>

definition or_else :: "string option \<Rightarrow> string \<Rightarrow> string" where
  "or_else x d = (case x of None \<Rightarrow> d | Some s \<Rightarrow> if s = [] then d else s)"

text \<open>\<open>x?.includes(n)\<close> in a condition: \<open>undefined\<close> is falsy.\<close>

definition opt_includes :: "string option \<Rightarrow> string \<Rightarrow> bool" where
  "opt_includes x n = (case x of None \<Rightarrow> False | Some s \<Rightarrow> str_includes s n)"

definition digit_char :: "nat \<Rightarrow> char" where
  "digit_char d = ''0123456789'' ! (d mod 10)"

function string_of_nat :: "nat \<Rightarrow> string" where
  "string_of_nat n =
     (if n < 10 then [digit_char n] else string_of_nat (n div 10) @ [digit_char (n mod 10)])"
  by pat_completeness auto
termination
  by (relation "measure id") auto

declare string_of_nat.simps [simp del]

definition sis_string :: "sis_type \<Rightarrow> string" where
  "sis_string t = (case t of Standard \<Rightarrow> ''Standard'' | Vanilla \<Rightarrow> ''Vanilla''
                   | Customized \<Rightarrow> ''Customized'')"

section \<open>Documents and the document store\<close>

fun get_field :: "document \<Rightarrow> string \<Rightarrow> jsval option" where
  "get_field [] k = None"
| "get_field ((k', v) # d) k = (if k' = k then Some v else get_field d k)"

fun set_field :: "string \<Rightarrow> jsval \<Rightarrow> document \<Rightarrow> document" where
  "set_field k v [] = [(k, v)]"
| "set_field k v ((k', v') # d) = (if k' = k then (k, v) # d else (k', v') # set_field k v d)"

text \<open>\<open>updateDoc\<close> sets the fields of the patch and leaves the others.\<close>

fun merge_fields :: "document \<Rightarrow> document \<Rightarrow> document" where
  "merge_fields d [] = d"
| "merge_fields d ((k, v) # p) = merge_fields (set_field k v d) p"

fun patch_docs :: "string \<Rightarrow> document \<Rightarrow> (string \<times> document) list \<Rightarrow> (string \<times> document) list" where
  "patch_docs i p [] = []"
| "patch_docs i p ((j, d) # ds) =
     (if j = i then (j, merge_fields d p) else (j, d)) # patch_docs i p ds"

definition say :: "effect list \<Rightarrow> app \<Rightarrow> app" where
  "say es s = s\<lparr>effects := effects s @ es\<rparr>"

section \<open>File selection (identical in both variants)\<close>

definition max_logo_bytes :: nat where
  "max_logo_bytes = 5 * 1024 * 1024"

text \<open>
  \<open>handleLogoUpload\<close>: \<open>sel\<close> is \<open>e.target.files?.[0]\<close>, \<open>result\<close> is what the
  \<open>FileReader\<close> holds when \<open>onloadend\<close> runs (a data URL, or null when reading failed).
\<close>

definition handleLogoUpload :: "File option \<Rightarrow> jsval \<Rightarrow> app \<Rightarrow> app" where
  "handleLogoUpload sel result s =
     (case sel of
        None \<Rightarrow> s
      | Some f \<Rightarrow>
          if size_bytes f > max_logo_bytes
          then say [Toast_error ''File size should be less than 5MB''] s
          else s\<lparr>brandLogo := Some f, logoPreview := result\<rparr>)"

section \<open>Strategy A: upload first, then write\<close>

definition upload_timeout_ms :: nat where
  "upload_timeout_ms = 25000"

definition display_delay_A :: nat where
  "display_delay_A = 3000"

definition path_A :: "nat \<Rightarrow> File \<Rightarrow> string" where
  "path_A now f = ''brand-logos/'' @ string_of_nat now @ ''_'' @ name f"

definition form_fields :: "FormData \<Rightarrow> document" where
  "form_fields d =
     [(''email'', JStr (email d)),
      (''requestDate'', JStr (requestDate d)),
      (''kamName'', JStr (kamName d)),
      (''brandName'', JStr (brandName d)),
      (''vendorName'', JStr (vendorName d)),
      (''sisType'', JStr (sis_string (sisType d))),
      (''retoolLink'', JStr (retoolLink d)),
      (''goLiveDate'', JStr (goLiveDate d))]"

definition payload_A :: "FormData \<Rightarrow> string \<Rightarrow> string \<Rightarrow> document" where
  "payload_A d logoUrl created =
     form_fields d @ [(''logoUrl'', JStr logoUrl), (''createdAt'', JStr created)]"

definition msg_blocked :: string where
  "msg_blocked = ''Upload blocked by Storage rules. Please allow uploads for this bucket (brand-logos/*) or sign in.''"

definition msg_quota :: string where
  "msg_quota = ''Storage quota exceeded for the bucket.''"

definition msg_timeout :: string where
  "msg_timeout = ''Upload timed out. Please check your network or Storage CORS/rules.''"

definition msg_default_A :: string where
  "msg_default_A = ''Failed to submit request. Please try again.''"

definition friendly_A :: "js_error \<Rightarrow> string" where
  "friendly_A e =
     (if opt_includes (code e) ''storage/unauthorized'' then msg_blocked
      else if opt_includes (code e) ''storage/quota-exceeded'' then msg_quota
      else if opt_includes (map_option toLowerCase (message e)) ''timed out'' then msg_timeout
      else or_else (message e) msg_default_A)"

definition timeout_error :: js_error where
  "timeout_error = \<lparr>code = None, message = Some ''Upload timed out''\<rparr>"

text \<open>The \<open>catch\<close> block followed by \<open>finally\<close>.\<close>

definition fail_A :: "js_error \<Rightarrow> app \<Rightarrow> app" where
  "fail_A e s =
     (say [Toast_error (''Submission failed: '' @ friendly_A e)] s)
       \<lparr>isSubmitting := False\<rparr>"

definition msg_success_A :: string where
  "msg_success_A = ''Request submitted successfully! Check your email for confirmation.''"

text \<open>
  \<open>onSubmit\<close> up to its \<open>await\<close>: the missing-file guard, \<open>setIsSubmitting(true)\<close>, and
  the promise executor, which starts the upload task and the timer synchronously.
\<close>

definition onSubmit_A_begin :: "env \<Rightarrow> FormData \<Rightarrow> app \<Rightarrow> app" where
  "onSubmit_A_begin ev d s =
     (case brandLogo s of
        None \<Rightarrow> say [Toast_error ''Please upload a brand logo''] s
      | Some f \<Rightarrow>
          (say [UploadBytesResumable (path_A (now_ms ev) f) f, SetTimeout upload_timeout_ms] s)
            \<lparr>isSubmitting := True\<rparr>)"

text \<open>What the run then waits for; nothing when the guard returned.\<close>

definition awaiting_A :: "env \<Rightarrow> FormData \<Rightarrow> app \<Rightarrow> pending option" where
  "awaiting_A ev d s =
     (case brandLogo s of
        None \<Rightarrow> None
      | Some f \<Rightarrow> Some (AwaitUpload d f (path_A (now_ms ev) f)))"

text \<open>
  The rest of the run that waits with \<open>k\<close>, once the race between the upload task and
  the timer is decided. When the timer fires first its callback cancels the task and
  rejects with \<open>Upload timed out\<close>; the observers of the cancelled task stay registered.
\<close>

definition onSubmit_A_resume :: "env \<Rightarrow> pending \<Rightarrow> app \<Rightarrow> app" where
  "onSubmit_A_resume ev k s =
     (case k of
        AwaitUpload d f p \<Rightarrow>
          (case upload ev of
             None \<Rightarrow>
               fail_A timeout_error ((say [Cancel p] s)\<lparr>cancelled := cancelled s @ [(p, f)]\<rparr>)
           | Some (Errored e) \<Rightarrow> fail_A e (say [ClearTimeout] s)
           | Some Completed \<Rightarrow>
               (let s1 = (say [ClearTimeout, GetDownloadURL p] s)\<lparr>blobs := blobs s @ [(p, f)]\<rparr>
                in case downloadURL ev p of
                     Inl e \<Rightarrow> fail_A e s1
                   | Inr url \<Rightarrow>
                       (let doc = payload_A d url (createdAt ev);
                            s2 = say [AddDoc doc] s1
                        in case addDocResult ev of
                             Inl e \<Rightarrow> fail_A e s2
                           | Inr i \<Rightarrow>
                               (say [Toast_success msg_success_A, SetTimeout display_delay_A] s2)
                                 \<lparr>docs := docs s2 @ [(i, doc)],
                                  isSubmitted := True,
                                  displayTimers := displayTimers s2 @ [display_delay_A],
                                  isSubmitting := False\<rparr>)))
      | _ \<Rightarrow> s)"

text \<open>One whole run of \<open>onSubmit\<close>: with no file it returns before anything is awaited.\<close>

definition onSubmit_A :: "env \<Rightarrow> FormData \<Rightarrow> app \<Rightarrow> app" where
  "onSubmit_A ev d s =
     (case awaiting_A ev d s of
        None \<Rightarrow> onSubmit_A_begin ev d s
      | Some k \<Rightarrow> onSubmit_A_resume ev k (onSubmit_A_begin ev d s))"

text \<open>
  The observers of a task the timer cancelled, run when that task signals after all.
  The promise is settled, so \<open>resolve\<close> and \<open>reject\<close> do nothing: no notice, no write.
\<close>

definition late_signal_A :: "env \<Rightarrow> string \<times> File \<Rightarrow> app \<Rightarrow> app" where
  "late_signal_A ev t s =
     (case t of (p, f) \<Rightarrow>
        (case upload ev of
           None \<Rightarrow> s
         | Some (Errored e) \<Rightarrow> say [ClearTimeout] s
         | Some Completed \<Rightarrow>
             (say [ClearTimeout, GetDownloadURL p] s)\<lparr>blobs := blobs s @ [(p, f)]\<rparr>))"

text \<open>The error that reaches the \<open>catch\<close> block of a run with file \<open>f\<close>, if any.\<close>

definition rejection_A :: "env \<Rightarrow> File \<Rightarrow> js_error option" where
  "rejection_A ev f =
     (case upload ev of
        None \<Rightarrow> Some timeout_error
      | Some (Errored e) \<Rightarrow> Some e
      | Some Completed \<Rightarrow>
          (case downloadURL ev (path_A (now_ms ev) f) of
             Inl e \<Rightarrow> Some e
           | Inr url \<Rightarrow> (case addDocResult ev of Inl e \<Rightarrow> Some e | Inr i \<Rightarrow> None)))"

text \<open>
  The callback of the display timer that is due first (they all have the same delay):
  \<open>reset()\<close> and the three setters.
\<close>

definition display_timeout :: "app \<Rightarrow> app" where
  "display_timeout s =
     (case displayTimers s of
        [] \<Rightarrow> s
      | t # ts \<Rightarrow> s\<lparr>formValues := Map.empty, brandLogo := None, logoPreview := JStr [],
                     isSubmitted := False, displayTimers := ts\<rparr>)"

section \<open>Strategy B: write first, upload in the background\<close>

definition display_delay_B :: nat where
  "display_delay_B = 2500"

definition path_B :: "string \<Rightarrow> nat \<Rightarrow> File \<Rightarrow> string" where
  "path_B i now f = ''brand-logos/'' @ i @ ''_'' @ string_of_nat now @ ''_'' @ name f"

definition basePayload :: "FormData \<Rightarrow> File option \<Rightarrow> string \<Rightarrow> document" where
  "basePayload d logo created =
     form_fields d @
     [(''logoUrl'', JNull),
      (''uploadStatus'', JStr (if logo \<noteq> None then ''pending'' else ''none'')),
      (''createdAt'', JStr created)]"

definition patch_failed :: "js_error \<Rightarrow> document" where
  "patch_failed e =
     [(''uploadStatus'', JStr ''failed''),
      (''uploadError'', JStr (or_else (message e) ''Upload failed''))]"

definition patch_complete :: "string \<Rightarrow> File \<Rightarrow> document" where
  "patch_complete url f =
     [(''logoUrl'', JStr url),
      (''logoFileName'', JStr (name f)),
      (''uploadStatus'', JStr ''complete'')]"

definition msg_bg_failed :: string where
  "msg_bg_failed = ''Logo upload failed, but your request was saved.''"

definition msg_success_B :: "File option \<Rightarrow> string" where
  "msg_success_B logo =
     (if logo \<noteq> None then ''Request submitted! Logo will finish uploading in background.''
      else ''Request submitted successfully!'')"

definition fail_B :: "js_error \<Rightarrow> app \<Rightarrow> app" where
  "fail_B e s =
     (say [Toast_error (''Submission failed: '' @ or_else (message e) ''Unable to save request.'')] s)
       \<lparr>isSubmitting := False\<rparr>"

text \<open>\<open>onSubmit\<close> up to \<open>await addDoc(...)\<close>.\<close>

definition onSubmit_B_begin :: "env \<Rightarrow> FormData \<Rightarrow> app \<Rightarrow> app" where
  "onSubmit_B_begin ev d s =
     (say [AddDoc (basePayload d (brandLogo s) (createdAt ev))] s)\<lparr>isSubmitting := True\<rparr>"

definition awaiting_B :: "env \<Rightarrow> FormData \<Rightarrow> app \<Rightarrow> pending" where
  "awaiting_B ev d s = AwaitAddDoc (brandLogo s) (basePayload d (brandLogo s) (createdAt ev))"

text \<open>
  The rest of the run that waits with \<open>k\<close>, once \<open>addDoc\<close> has settled. With a file, the
  upload task is started and its observers registered; \<open>onSubmit\<close> does not wait for them.
\<close>

definition onSubmit_B_resume :: "env \<Rightarrow> pending \<Rightarrow> app \<Rightarrow> app" where
  "onSubmit_B_resume ev k s =
     (case k of
        AwaitAddDoc logo doc \<Rightarrow>
          (case addDocResult ev of
             Inl e \<Rightarrow> fail_B e s
           | Inr i \<Rightarrow>
               (let s1 = s\<lparr>docs := docs s @ [(i, doc)]\<rparr>;
                    s2 = (case logo of
                            None \<Rightarrow> s1
                          | Some f \<Rightarrow>
                              (say [UploadBytesResumable (path_B i (now_ms ev) f) f] s1)
                                \<lparr>bgUploads := bgUploads s1 @ [(i, path_B i (now_ms ev) f, f)]\<rparr>)
                in (say [Toast_success (msg_success_B logo), SetTimeout display_delay_B] s2)
                     \<lparr>isSubmitted := True,
                      displayTimers := displayTimers s2 @ [display_delay_B],
                      isSubmitting := False\<rparr>))
      | _ \<Rightarrow> s)"

definition onSubmit_B :: "env \<Rightarrow> FormData \<Rightarrow> app \<Rightarrow> app" where
  "onSubmit_B ev d s = onSubmit_B_resume ev (awaiting_B ev d s) (onSubmit_B_begin ev d s)"

text \<open>
  The observers of one background upload task. The error observer patches the document
  (when \<open>updateDoc\<close> is accepted) and then toasts; the completion observer resolves the
  URL and patches, and only logs to the console when either step is rejected.
\<close>

definition background_B :: "env \<Rightarrow> bg_task \<Rightarrow> app \<Rightarrow> app" where
  "background_B ev t s =
     (case t of (i, p, f) \<Rightarrow>
        (case upload ev of
           None \<Rightarrow> s
         | Some (Errored e) \<Rightarrow>
             (let s1 = say [UpdateDoc i (patch_failed e)] s;
                  s2 = (case updateDocResult ev of
                          None \<Rightarrow> s1\<lparr>docs := patch_docs i (patch_failed e) (docs s1)\<rparr>
                        | Some _ \<Rightarrow> s1)
              in say [Toast_error msg_bg_failed] s2)
         | Some Completed \<Rightarrow>
             (let s1 = (say [GetDownloadURL p] s)\<lparr>blobs := blobs s @ [(p, f)]\<rparr>
              in case downloadURL ev p of
                   Inl _ \<Rightarrow> s1
                 | Inr url \<Rightarrow>
                     (let s2 = say [UpdateDoc i (patch_complete url f)] s1
                      in case updateDocResult ev of
                           None \<Rightarrow> s2\<lparr>docs := patch_docs i (patch_complete url f) (docs s2)\<rparr>
                         | Some _ \<Rightarrow> s2))))"

text \<open>
  One submission with its background upload, if it started one, run to the end:
  \<open>onSubmit\<close> returns first, the observers of the task run afterwards.
\<close>

definition run_B :: "env \<Rightarrow> FormData \<Rightarrow> app \<Rightarrow> app" where
  "run_B ev d s =
     (let s' = onSubmit_B ev d s
      in case (brandLogo s, addDocResult ev) of
           (Some f, Inr i) \<Rightarrow> background_B ev (i, path_B i (now_ms ev) f, f) s'
         | _ \<Rightarrow> s')"

section \<open>The form as a state machine\<close>



datatype variant = UploadFirst | WriteFirst

text \<open>
  The events of the component: a validated submit reaches \<open>onSubmit\<close>; the promise that
  the run at a given position awaits settles; the display timer that is due fires; the
  file input changes; an upload task at a given position signals its observers (in
  Strategy B a background upload, in Strategy A a task the timer had cancelled); the
  component renders.
\<close>

datatype event =
    Submit env FormData
  | Settle env nat
  | DisplayTimeout
  | SelectFile "File option" jsval
  | UploadSignal env nat
  | Render

definition render :: "app \<Rightarrow> app" where
  "render s =
     s\<lparr>shownSubmitting := isSubmitting s, shownSubmitted := isSubmitted s,
       shownLogo := brandLogo s\<rparr>"

text \<open>
  \<open>onSubmit\<close> itself never tests \<open>isSubmitting\<close>. What keeps a submit from reaching it
  is the page as last rendered: the success card has neither the form nor the file input,
  and the button carries \<open>disabled={isSubmitting}\<close>. The handler that runs is the one of
  that render, so it reads the \<open>brandLogo\<close> of that render. Each run that awaits joins
  \<open>suspended\<close>. \<open>Submit\<close> stands for a submit that passed the schema validation of
  \<open>handleSubmit\<close>.
\<close>

definition submit :: "variant \<Rightarrow> env \<Rightarrow> FormData \<Rightarrow> app \<Rightarrow> app" where
  "submit v ev d s =
     (let c = s\<lparr>brandLogo := shownLogo s\<rparr>
      in case v of
           UploadFirst \<Rightarrow>
             (onSubmit_A_begin ev d c)
               \<lparr>brandLogo := brandLogo s,
                suspended := suspended s @ (case awaiting_A ev d c of None \<Rightarrow> [] | Some k \<Rightarrow> [k])\<rparr>
         | WriteFirst \<Rightarrow>
             (onSubmit_B_begin ev d c)
               \<lparr>brandLogo := brandLogo s, suspended := suspended s @ [awaiting_B ev d c]\<rparr>)"

definition without :: "nat \<Rightarrow> 'a list \<Rightarrow> 'a list" where
  "without n xs = take n xs @ drop (Suc n) xs"

definition dispatch :: "variant \<Rightarrow> event \<Rightarrow> app \<Rightarrow> app" where
  "dispatch v e s =
     (case e of
        Submit ev d \<Rightarrow>
          if shownSubmitted s \<or> shownSubmitting s then s else submit v ev d s
      | Settle ev n \<Rightarrow>
          if n < length (suspended s)
          then (case v of
                  UploadFirst \<Rightarrow>
                    onSubmit_A_resume ev (suspended s ! n) (s\<lparr>suspended := without n (suspended s)\<rparr>)
                | WriteFirst \<Rightarrow>
                    onSubmit_B_resume ev (suspended s ! n) (s\<lparr>suspended := without n (suspended s)\<rparr>))
          else s
      | DisplayTimeout \<Rightarrow> display_timeout s
      | SelectFile sel r \<Rightarrow> if shownSubmitted s then s else handleLogoUpload sel r s
      | UploadSignal ev n \<Rightarrow>
          (case v of
             UploadFirst \<Rightarrow>
               if n < length (cancelled s) \<and> upload ev \<noteq> None
               then late_signal_A ev (cancelled s ! n) (s\<lparr>cancelled := without n (cancelled s)\<rparr>)
               else s
           | WriteFirst \<Rightarrow>
               if n < length (bgUploads s) \<and> upload ev \<noteq> None
               then background_B ev (bgUploads s ! n) (s\<lparr>bgUploads := without n (bgUploads s)\<rparr>)
               else s)
      | Render \<Rightarrow> render s)"

definition initial :: app where
  "initial =
     \<lparr>isSubmitting = False, brandLogo = None, logoPreview = JStr [], isSubmitted = False,
      formValues = Map.empty, shownSubmitting = False, shownSubmitted = False,
      shownLogo = None, suspended = [], displayTimers = [], cancelled = [], bgUploads = [],
      docs = [], blobs = [], effects = []\<rparr>"

text \<open>Every state the component can get into, whatever the order of the events.\<close>

inductive reachable :: "variant \<Rightarrow> app \<Rightarrow> bool" for v :: variant where
  start: "reachable v (initial\<lparr>formValues := fv, docs := ds, blobs := bs\<rparr>)"
| edit: "reachable v s \<Longrightarrow> \<not> shownSubmitted s \<Longrightarrow> reachable v (s\<lparr>formValues := fv\<rparr>)"
| step: "reachable v s \<Longrightarrow> reachable v (dispatch v e s)"

text \<open>
  A submit is timely when it does not fall between a change of the submitting or
  submitted flag and the render that shows it. \<open>paced\<close> are the states reached when every
  submit is timely; the other events come in any order.
\<close>

definition timely :: "event \<Rightarrow> app \<Rightarrow> bool" where
  "timely e s =
     (case e of
        Submit ev d \<Rightarrow> (isSubmitting s \<longrightarrow> shownSubmitting s) \<and> (isSubmitted s \<longrightarrow> shownSubmitted s)
      | _ \<Rightarrow> True)"

inductive paced :: "variant \<Rightarrow> app \<Rightarrow> bool" for v :: variant where
  start: "paced v (initial\<lparr>formValues := fv, docs := ds, blobs := bs\<rparr>)"
| edit: "paced v s \<Longrightarrow> \<not> shownSubmitted s \<Longrightarrow> paced v (s\<lparr>formValues := fv\<rparr>)"
| step: "paced v s \<Longrightarrow> timely e s \<Longrightarrow> paced v (dispatch v e s)"




section \<open>Observing one run\<close>

text \<open>The calls and notices a run added to the list, in order.\<close>

definition emitted :: "app \<Rightarrow> app \<Rightarrow> effect list" where
  "emitted s s' = drop (length (effects s)) (effects s')"

fun is_UpdateDoc :: "effect \<Rightarrow> bool" where
  "is_UpdateDoc (UpdateDoc i p) = True"
| "is_UpdateDoc _ = False"

fun is_Toast_success :: "effect \<Rightarrow> bool" where
  "is_Toast_success (Toast_success m) = True"
| "is_Toast_success _ = False"



text \<open>
  The Strategy B document as created with a file selected, and as it reads after the
  completion patch and after the failure patch (\<open>updateDoc\<close> appends the fields the
  document did not have).
\<close>

definition pending_doc :: "FormData \<Rightarrow> string \<Rightarrow> document" where
  "pending_doc d created =
     form_fields d @
     [(''logoUrl'', JNull), (''uploadStatus'', JStr ''pending''), (''createdAt'', JStr created)]"

definition complete_doc :: "FormData \<Rightarrow> string \<Rightarrow> string \<Rightarrow> File \<Rightarrow> document" where
  "complete_doc d created url f =
     form_fields d @
     [(''logoUrl'', JStr url), (''uploadStatus'', JStr ''complete''), (''createdAt'', JStr created),
      (''logoFileName'', JStr (name f))]"

definition failed_doc :: "FormData \<Rightarrow> string \<Rightarrow> js_error \<Rightarrow> document" where
  "failed_doc d created e =
     form_fields d @
     [(''logoUrl'', JNull), (''uploadStatus'', JStr ''failed''), (''createdAt'', JStr created),
      (''uploadError'', JStr (or_else (message e) ''Upload failed''))]"

text \<open>Concrete inputs: the form values of the specification's example, a small logo.\<close>

definition sample_data :: FormData where
  "sample_data =
     \<lparr>email = ''a@b.com'', requestDate = ''2024-01-01'', kamName = ''Jane'',
      brandName = ''Acme'', vendorName = ''Vendor Co'', sisType = Standard, retoolLink = [],
      goLiveDate = ''2024-02-01''\<rparr>"

definition sample_logo :: File where
  "sample_logo = \<lparr>name = ''logo.png'', size_bytes = 2048\<rparr>"

text \<open>A world in which every step succeeds, and three in which one step is refused.\<close>

definition sample_env :: env where
  "sample_env =
     \<lparr>now_ms = 1705, createdAt = ''2024-01-01T00:00:00.000Z'', upload = Some Completed,
      downloadURL = (\<lambda>p. Inr (''https://storage.example/'' @ p)),
      addDocResult = Inr ''doc1'', updateDocResult = None\<rparr>"

definition unauthorized :: js_error where
  "unauthorized =
     \<lparr>code = Some ''storage/unauthorized'', message = Some ''User does not have permission''\<rparr>"

definition write_rejected :: env where
  "write_rejected =
     sample_env\<lparr>addDocResult :=
       Inl \<lparr>code = Some ''permission-denied'',
            message = Some ''Missing or insufficient permissions.''\<rparr>\<rparr>"

definition url_rejected :: env where
  "url_rejected = sample_env\<lparr>downloadURL := (\<lambda>p. Inl unauthorized)\<rparr>"

definition upload_rejected :: env where
  "upload_rejected = sample_env\<lparr>upload := Some (Errored unauthorized)\<rparr>"

definition with_logo :: app where
  "with_logo =
     initial\<lparr>brandLogo := Some sample_logo, logoPreview := JStr ''data:image/png;base64,AAAA'',
       shownLogo := Some sample_logo\<rparr>"



section \<open>Basic facts\<close>

lemma friendly_timeout: "friendly_A timeout_error = msg_timeout"
  by (simp add: friendly_A_def timeout_error_def opt_includes_def toLowerCase_def
      lower_char_def lower_table_def)

lemma emitted_say [simp]: "emitted s (say es s) = es"
  by (simp add: emitted_def say_def)

lemma emitted_self [simp]: "emitted s s = []"
  by (simp add: emitted_def)

lemma or_else_nonempty: "dflt \<noteq> [] \<Longrightarrow> or_else x dflt \<noteq> []"
  by (simp add: or_else_def split: option.splits)

lemmas A_defs =
  onSubmit_A_def onSubmit_A_begin_def onSubmit_A_resume_def awaiting_A_def fail_A_def say_def
  emitted_def

lemmas B_defs =
  onSubmit_B_def onSubmit_B_begin_def onSubmit_B_resume_def awaiting_B_def fail_B_def run_B_def
  background_B_def say_def emitted_def

subsection \<open>Strategy A, run by run\<close>

lemma A_success_cases:
  assumes "Toast_success m \<in> set (emitted s (onSubmit_A ev d s))"
  shows "\<exists>f url i. brandLogo s = Some f \<and> upload ev = Some Completed
           \<and> downloadURL ev (path_A (now_ms ev) f) = Inr url \<and> addDocResult ev = Inr i"
  using assms
  by (auto simp add: A_defs Let_def split: option.splits upload_event.splits sum.splits)

lemma A_success_run:
  assumes "brandLogo s = Some f" "upload ev = Some Completed"
    "downloadURL ev (path_A (now_ms ev) f) = Inr url" "addDocResult ev = Inr i"
  shows "onSubmit_A ev d s =
           s\<lparr>effects := effects s @
                [UploadBytesResumable (path_A (now_ms ev) f) f, SetTimeout 25000, ClearTimeout,
                 GetDownloadURL (path_A (now_ms ev) f), AddDoc (payload_A d url (createdAt ev)),
                 Toast_success msg_success_A, SetTimeout 3000],
              blobs := blobs s @ [(path_A (now_ms ev) f, f)],
              docs := docs s @ [(i, payload_A d url (createdAt ev))],
              isSubmitted := True, displayTimers := displayTimers s @ [3000],
              isSubmitting := False\<rparr>"
  using assms
  by (simp add: A_defs Let_def upload_timeout_ms_def display_delay_A_def)

lemma A_failure_toast:
  assumes "brandLogo s = Some f" "rejection_A ev f = Some e"
  shows "last (emitted s (onSubmit_A ev d s)) = Toast_error (''Submission failed: '' @ friendly_A e)"
  using assms
  by (auto simp add: A_defs Let_def rejection_A_def
       split: option.splits upload_event.splits sum.splits)

lemma A_failure_state:
  assumes "brandLogo s = Some f" "rejection_A ev f = Some e"
  shows "docs (onSubmit_A ev d s) = docs s"
    and "isSubmitted (onSubmit_A ev d s) = isSubmitted s"
    and "\<not> isSubmitting (onSubmit_A ev d s)"
    and "filter is_Toast_success (emitted s (onSubmit_A ev d s)) = []"
    and "blobs (onSubmit_A ev d s) =
           (if upload ev = Some Completed then blobs s @ [(path_A (now_ms ev) f, f)] else blobs s)"
  using assms
  by (auto simp add: A_defs Let_def rejection_A_def
       split: option.splits upload_event.splits sum.splits)

subsection \<open>Strategy B, run by run\<close>

lemma patch_docs_fresh:
  "i \<notin> fst ` set ds \<Longrightarrow> patch_docs i p (ds @ [(i, b)]) = ds @ [(i, merge_fields b p)]"
  by (induction ds) auto

lemma merge_complete:
  "merge_fields (pending_doc d c) (patch_complete url f) = complete_doc d c url f"
  by (simp add: pending_doc_def patch_complete_def complete_doc_def form_fields_def)

lemma merge_failed:
  "merge_fields (pending_doc d c) (patch_failed e) = failed_doc d c e"
  by (simp add: pending_doc_def patch_failed_def failed_doc_def form_fields_def)

lemma basePayload_pending: "basePayload d (Some f) c = pending_doc d c"
  by (simp add: basePayload_def pending_doc_def)

lemma B_begin_docs:
  assumes "brandLogo s = Some f" "addDocResult ev = Inr i"
  shows "docs (onSubmit_B ev d s) = docs s @ [(i, pending_doc d (createdAt ev))]"
  using assms by (simp add: B_defs Let_def basePayload_pending)

lemma B_registers_task:
  assumes "brandLogo s = Some f" "addDocResult ev = Inr i"
  shows "bgUploads (onSubmit_B ev d s) = bgUploads s @ [(i, path_B i (now_ms ev) f, f)]"
    and "run_B ev d s = background_B ev (last (bgUploads (onSubmit_B ev d s))) (onSubmit_B ev d s)"
  using assms by (simp_all add: onSubmit_B_def onSubmit_B_begin_def onSubmit_B_resume_def
      awaiting_B_def run_B_def say_def Let_def)

lemma B_run_docs:
  assumes "brandLogo s = Some f" "addDocResult ev = Inr i"
  shows "docs (run_B ev d s) =
     (case upload ev of
        None \<Rightarrow> docs s @ [(i, pending_doc d (createdAt ev))]
      | Some (Errored e) \<Rightarrow>
          (case updateDocResult ev of
             None \<Rightarrow> patch_docs i (patch_failed e) (docs s @ [(i, pending_doc d (createdAt ev))])
           | Some _ \<Rightarrow> docs s @ [(i, pending_doc d (createdAt ev))])
      | Some Completed \<Rightarrow>
          (case downloadURL ev (path_B i (now_ms ev) f) of
             Inl _ \<Rightarrow> docs s @ [(i, pending_doc d (createdAt ev))]
           | Inr url \<Rightarrow>
               (case updateDocResult ev of
                  None \<Rightarrow>
                    patch_docs i (patch_complete url f) (docs s @ [(i, pending_doc d (createdAt ev))])
                | Some _ \<Rightarrow> docs s @ [(i, pending_doc d (createdAt ev))])))"
  using assms
  by (simp add: B_defs Let_def basePayload_pending
       split: option.splits upload_event.splits sum.splits)

lemma B_run_updates:
  assumes "brandLogo s = Some f" "addDocResult ev = Inr i"
  shows "length (filter is_UpdateDoc (emitted s (run_B ev d s))) \<le> 1"
  using assms
  by (simp add: B_defs Let_def split: option.splits upload_event.splits sum.splits)

lemma B_upload_error_run:
  assumes "brandLogo s = Some f" "addDocResult ev = Inr i" "upload ev = Some (Errored e)"
  shows "emitted s (run_B ev d s) =
           [AddDoc (pending_doc d (createdAt ev)),
            UploadBytesResumable (path_B i (now_ms ev) f) f,
            Toast_success ''Request submitted! Logo will finish uploading in background.'',
            SetTimeout 2500,
            UpdateDoc i (patch_failed e),
            Toast_error ''Logo upload failed, but your request was saved.'']"
    and "isSubmitted (onSubmit_B ev d s)" and "isSubmitted (run_B ev d s)"
  using assms
  by (simp_all add: B_defs Let_def basePayload_pending msg_success_B_def msg_bg_failed_def
      display_delay_B_def split: option.splits)

lemma B_no_submission_failure:
  assumes "addDocResult ev = Inr i"
  shows "Toast_error (''Submission failed: '' @ m) \<notin> set (emitted s (run_B ev d s))"
  using assms
  by (auto simp add: B_defs Let_def msg_bg_failed_def
       split: option.splits upload_event.splits sum.splits)

subsection \<open>The state machine, event by event\<close>


















lemma paced_reachable: "paced v s \<Longrightarrow> reachable v s"
  by (induction rule: paced.induct) (auto intro: reachable.intros)


















section \<open>Strategy A without a file\<close>

text \<open>
  Claim C8. A Strategy A submission with no file selected stops at the guard: the only
  thing it does is the error notice \<open>Please upload a brand logo\<close>. No upload task is
  created, no Firestore call is made, no document and no object is stored, and the
  submitting and submitted flags stay as they were.
\<close>

theorem missing_file_fails_fast:
  assumes "brandLogo s = None"
  shows "onSubmit_A ev d s = s\<lparr>effects := effects s @ [Toast_error ''Please upload a brand logo'']\<rparr>
       \<and> emitted s (onSubmit_A ev d s) = [Toast_error ''Please upload a brand logo'']
       \<and> docs (onSubmit_A ev d s) = docs s
       \<and> blobs (onSubmit_A ev d s) = blobs s
       \<and> isSubmitting (onSubmit_A ev d s) = isSubmitting s
       \<and> isSubmitted (onSubmit_A ev d s) = isSubmitted s"
  using assms by (simp add: A_defs)

theorem missing_file_fails_fast_witness:
  "brandLogo initial = None
   \<and> effects (onSubmit_A sample_env sample_data initial) = [Toast_error ''Please upload a brand logo'']
   \<and> docs (onSubmit_A sample_env sample_data initial) = []
   \<and> blobs (onSubmit_A sample_env sample_data initial) = []"
  using missing_file_fails_fast [of initial sample_env sample_data] by (simp add: initial_def)

section \<open>Strategy A: the upload timeout\<close>

text \<open>
  Claim C2. In a Strategy A submission with a file, when the timer set for 25000 ms
  fires before the upload task has signalled anything, the run consists of: starting the
  upload, setting that timer, cancelling the upload, and the error notice with the
  timeout message. \<open>addDoc\<close> is never called: the document store and the blob store are
  unchanged, success is not signalled, and the submitting flag is cleared.
\<close>

theorem upload_timeout_aborts:
  assumes "brandLogo s = Some f" and "upload ev = None"
  shows "emitted s (onSubmit_A ev d s) =
           [UploadBytesResumable (path_A (now_ms ev) f) f, SetTimeout 25000,
            Cancel (path_A (now_ms ev) f),
            Toast_error ''Submission failed: Upload timed out. Please check your network or Storage CORS/rules.'']
       \<and> docs (onSubmit_A ev d s) = docs s
       \<and> blobs (onSubmit_A ev d s) = blobs s
       \<and> isSubmitted (onSubmit_A ev d s) = isSubmitted s
       \<and> \<not> isSubmitting (onSubmit_A ev d s)"
  using assms by (simp add: A_defs friendly_timeout msg_timeout_def upload_timeout_ms_def)

theorem upload_timeout_aborts_witness:
  "brandLogo with_logo = Some sample_logo \<and> upload (sample_env\<lparr>upload := None\<rparr>) = None
   \<and> effects (onSubmit_A (sample_env\<lparr>upload := None\<rparr>) sample_data with_logo) =
           [UploadBytesResumable (path_A 1705 sample_logo) sample_logo, SetTimeout 25000,
            Cancel (path_A 1705 sample_logo),
            Toast_error ''Submission failed: Upload timed out. Please check your network or Storage CORS/rules.'']
   \<and> docs (onSubmit_A (sample_env\<lparr>upload := None\<rparr>) sample_data with_logo) = []"
  using upload_timeout_aborts [of with_logo sample_logo "sample_env\<lparr>upload := None\<rparr>" sample_data]
  by (simp add: with_logo_def initial_def sample_env_def emitted_def)

section \<open>Strategy A: a failing step\<close>

text \<open>
  Claim C3, as the code has it. In a Strategy A submission with a file, when the upload
  step (the upload itself, its timeout, or resolving the URL) or the document write is
  refused with an error \<open>e\<close>, the run ends in the \<open>catch\<close> block: the last thing it does
  is the notice \<open>Submission failed: ...\<close> for \<open>e\<close>, success is not signalled, the
  submitting flag is cleared and the document store is unchanged. The blob store is not
  cleaned up: when the upload had completed before the failure, the uploaded object is
  still in the bucket; otherwise the bucket is unchanged.
\<close>

theorem failure_writes_no_document:
  assumes "brandLogo s = Some f" and "rejection_A ev f = Some e"
  shows "docs (onSubmit_A ev d s) = docs s
       \<and> isSubmitted (onSubmit_A ev d s) = isSubmitted s
       \<and> \<not> isSubmitting (onSubmit_A ev d s)
       \<and> filter is_Toast_success (emitted s (onSubmit_A ev d s)) = []
       \<and> last (emitted s (onSubmit_A ev d s)) = Toast_error (''Submission failed: '' @ friendly_A e)
       \<and> blobs (onSubmit_A ev d s) =
           (if upload ev = Some Completed then blobs s @ [(path_A (now_ms ev) f, f)] else blobs s)"
  using A_failure_state [OF assms, of d] A_failure_toast [OF assms, of d]
  by (simp only: simp_thms)

theorem failure_writes_no_document_witness:
  "brandLogo with_logo = Some sample_logo
   \<and> rejection_A write_rejected sample_logo =
       Some \<lparr>code = Some ''permission-denied'', message = Some ''Missing or insufficient permissions.''\<rparr>
   \<and> docs (onSubmit_A write_rejected sample_data with_logo) = []
   \<and> \<not> isSubmitted (onSubmit_A write_rejected sample_data with_logo)
   \<and> last (emitted with_logo (onSubmit_A write_rejected sample_data with_logo)) =
       Toast_error ''Submission failed: Missing or insufficient permissions.''
   \<and> blobs (onSubmit_A write_rejected sample_data with_logo) = [(path_A 1705 sample_logo, sample_logo)]"
proof -
  have h: "brandLogo with_logo = Some sample_logo"
    "rejection_A write_rejected sample_logo =
       Some \<lparr>code = Some ''permission-denied'', message = Some ''Missing or insufficient permissions.''\<rparr>"
    by (simp_all add: with_logo_def initial_def rejection_A_def write_rejected_def sample_env_def)
  have m: "friendly_A \<lparr>code = Some ''permission-denied'',
                       message = Some ''Missing or insufficient permissions.''\<rparr>
             = ''Missing or insufficient permissions.''"
    by (simp add: friendly_A_def opt_includes_def or_else_def toLowerCase_def lower_char_def
        lower_table_def)
  from failure_writes_no_document [OF h, of sample_data] h m show ?thesis
    by (simp add: with_logo_def initial_def write_rejected_def sample_env_def)
qed

text \<open>
  The claim as first stated (nothing at all is persisted) fails when the write is
  refused after a completed upload: the object is in the bucket.
\<close>

theorem rejected_write_leaves_object:
  "brandLogo with_logo = Some sample_logo
   \<and> addDocResult write_rejected =
       Inl \<lparr>code = Some ''permission-denied'', message = Some ''Missing or insufficient permissions.''\<rparr>
   \<and> \<not> isSubmitted (onSubmit_A write_rejected sample_data with_logo)
   \<and> docs (onSubmit_A write_rejected sample_data with_logo) = docs with_logo
   \<and> blobs with_logo = []
   \<and> blobs (onSubmit_A write_rejected sample_data with_logo) = [(path_A 1705 sample_logo, sample_logo)]"
  by (simp add: A_defs Let_def write_rejected_def sample_env_def with_logo_def initial_def)

section \<open>Strategy A: a successful run\<close>

text \<open>
  Claim C4. Whenever a Strategy A run signals success, the file was there, the upload
  completed, the URL of the uploaded object (the same storage path) was resolved and the
  write was accepted. The run stored that one object, appended exactly one document, whose
  \<open>logoUrl\<close> is the resolved URL, and the success notice comes after the upload, the URL
  and the \<open>addDoc\<close> call, in that order.
\<close>

theorem success_document_has_resolved_url:
  assumes "Toast_success m \<in> set (emitted s (onSubmit_A ev d s))"
  shows "\<exists>f url i.
           brandLogo s = Some f
         \<and> upload ev = Some Completed
         \<and> downloadURL ev (path_A (now_ms ev) f) = Inr url
         \<and> addDocResult ev = Inr i
         \<and> blobs (onSubmit_A ev d s) = blobs s @ [(path_A (now_ms ev) f, f)]
         \<and> docs (onSubmit_A ev d s) = docs s @ [(i, payload_A d url (createdAt ev))]
         \<and> get_field (payload_A d url (createdAt ev)) ''logoUrl'' = Some (JStr url)
         \<and> emitted s (onSubmit_A ev d s) =
             [UploadBytesResumable (path_A (now_ms ev) f) f, SetTimeout 25000, ClearTimeout,
              GetDownloadURL (path_A (now_ms ev) f), AddDoc (payload_A d url (createdAt ev)),
              Toast_success ''Request submitted successfully! Check your email for confirmation.'',
              SetTimeout 3000]
         \<and> isSubmitted (onSubmit_A ev d s)"
proof -
  from A_success_cases [OF assms] obtain f url i where
    h: "brandLogo s = Some f" "upload ev = Some Completed"
       "downloadURL ev (path_A (now_ms ev) f) = Inr url" "addDocResult ev = Inr i"
    by blast
  have "get_field (payload_A d url (createdAt ev)) ''logoUrl'' = Some (JStr url)"
    by (simp add: payload_A_def form_fields_def)
  with h A_success_run [OF h, of d] show ?thesis
    by (simp add: emitted_def msg_success_A_def)
qed

theorem success_document_has_resolved_url_witness:
  "Toast_success msg_success_A \<in> set (emitted with_logo (onSubmit_A sample_env sample_data with_logo))
   \<and> docs (onSubmit_A sample_env sample_data with_logo) =
       [(''doc1'', payload_A sample_data (''https://storage.example/'' @ path_A 1705 sample_logo)
                    ''2024-01-01T00:00:00.000Z'')]
   \<and> downloadURL sample_env (path_A 1705 sample_logo) =
       Inr (''https://storage.example/'' @ path_A 1705 sample_logo)
   \<and> blobs (onSubmit_A sample_env sample_data with_logo) = [(path_A 1705 sample_logo, sample_logo)]"
proof -
  have w: "Toast_success msg_success_A
             \<in> set (emitted with_logo (onSubmit_A sample_env sample_data with_logo))"
    by (simp add: A_defs with_logo_def initial_def sample_env_def Let_def)
  from success_document_has_resolved_url [OF w] show ?thesis using w
    by (auto simp add: with_logo_def initial_def sample_env_def)
qed

text \<open>
  Claim C9. The document a successful Strategy A run writes is exactly this list of ten
  fields: the eight form fields with the submitted values, \<open>logoUrl\<close> with the resolved
  URL and \<open>createdAt\<close> with the timestamp. It has no \<open>uploadStatus\<close>, no
  \<open>uploadError\<close> and no \<open>logoFileName\<close>. The document Strategy B creates has the same
  eight form fields, a null \<open>logoUrl\<close>, \<open>createdAt\<close>, and does carry \<open>uploadStatus\<close>
  (\<open>pending\<close> with a file, \<open>none\<close> without).
\<close>

theorem upload_first_document_fields:
  assumes "Toast_success m \<in> set (emitted s (onSubmit_A ev d s))"
  shows "\<exists>i url doc.
           docs (onSubmit_A ev d s) = docs s @ [(i, doc)]
         \<and> doc =
             [(''email'', JStr (email d)),
              (''requestDate'', JStr (requestDate d)),
              (''kamName'', JStr (kamName d)),
              (''brandName'', JStr (brandName d)),
              (''vendorName'', JStr (vendorName d)),
              (''sisType'', JStr (case sisType d of Standard \<Rightarrow> ''Standard''
                                  | Vanilla \<Rightarrow> ''Vanilla'' | Customized \<Rightarrow> ''Customized'')),
              (''retoolLink'', JStr (retoolLink d)),
              (''goLiveDate'', JStr (goLiveDate d)),
              (''logoUrl'', JStr url),
              (''createdAt'', JStr (createdAt ev))]
         \<and> (\<exists>f. brandLogo s = Some f \<and> downloadURL ev (path_A (now_ms ev) f) = Inr url)
         \<and> map fst doc = [''email'', ''requestDate'', ''kamName'', ''brandName'', ''vendorName'',
                           ''sisType'', ''retoolLink'', ''goLiveDate'', ''logoUrl'', ''createdAt'']
         \<and> get_field doc ''uploadStatus'' = None
         \<and> get_field doc ''uploadError'' = None
         \<and> get_field doc ''logoFileName'' = None
         \<and> basePayload d' logo c =
             [(''email'', JStr (email d')),
              (''requestDate'', JStr (requestDate d')),
              (''kamName'', JStr (kamName d')),
              (''brandName'', JStr (brandName d')),
              (''vendorName'', JStr (vendorName d')),
              (''sisType'', JStr (case sisType d' of Standard \<Rightarrow> ''Standard''
                                  | Vanilla \<Rightarrow> ''Vanilla'' | Customized \<Rightarrow> ''Customized'')),
              (''retoolLink'', JStr (retoolLink d')),
              (''goLiveDate'', JStr (goLiveDate d')),
              (''logoUrl'', JNull),
              (''uploadStatus'', JStr (if logo \<noteq> None then ''pending'' else ''none'')),
              (''createdAt'', JStr c)]
         \<and> get_field (basePayload d' logo c) ''uploadStatus''
             = Some (JStr (if logo \<noteq> None then ''pending'' else ''none''))"
proof -
  from A_success_cases [OF assms] obtain f url i where
    h: "brandLogo s = Some f" "upload ev = Some Completed"
       "downloadURL ev (path_A (now_ms ev) f) = Inr url" "addDocResult ev = Inr i"
    by blast
  let ?doc = "payload_A d url (createdAt ev)"
  have 1: "docs (onSubmit_A ev d s) = docs s @ [(i, ?doc)]"
    using A_success_run [OF h, of d] by simp
  have 2: "?doc =
             [(''email'', JStr (email d)),
              (''requestDate'', JStr (requestDate d)),
              (''kamName'', JStr (kamName d)),
              (''brandName'', JStr (brandName d)),
              (''vendorName'', JStr (vendorName d)),
              (''sisType'', JStr (case sisType d of Standard \<Rightarrow> ''Standard''
                                  | Vanilla \<Rightarrow> ''Vanilla'' | Customized \<Rightarrow> ''Customized'')),
              (''retoolLink'', JStr (retoolLink d)),
              (''goLiveDate'', JStr (goLiveDate d)),
              (''logoUrl'', JStr url),
              (''createdAt'', JStr (createdAt ev))]"
    by (simp add: payload_A_def form_fields_def sis_string_def)
  have 3: "\<exists>f. brandLogo s = Some f \<and> downloadURL ev (path_A (now_ms ev) f) = Inr url"
    using h by blast
  have 4: "map fst ?doc =
      [''email'', ''requestDate'', ''kamName'', ''brandName'', ''vendorName'',
       ''sisType'', ''retoolLink'', ''goLiveDate'', ''logoUrl'', ''createdAt'']"
    by (simp add: payload_A_def form_fields_def)
  have 5: "get_field ?doc ''uploadStatus'' = None"
    "get_field ?doc ''uploadError'' = None"
    "get_field ?doc ''logoFileName'' = None"
    by (simp_all add: payload_A_def form_fields_def)
  have 6: "basePayload d' logo c =
             [(''email'', JStr (email d')),
              (''requestDate'', JStr (requestDate d')),
              (''kamName'', JStr (kamName d')),
              (''brandName'', JStr (brandName d')),
              (''vendorName'', JStr (vendorName d')),
              (''sisType'', JStr (case sisType d' of Standard \<Rightarrow> ''Standard''
                                  | Vanilla \<Rightarrow> ''Vanilla'' | Customized \<Rightarrow> ''Customized'')),
              (''retoolLink'', JStr (retoolLink d')),
              (''goLiveDate'', JStr (goLiveDate d')),
              (''logoUrl'', JNull),
              (''uploadStatus'', JStr (if logo \<noteq> None then ''pending'' else ''none'')),
              (''createdAt'', JStr c)]"
    by (simp add: basePayload_def form_fields_def sis_string_def)
  have 7: "get_field (basePayload d' logo c) ''uploadStatus''
             = Some (JStr (if logo \<noteq> None then ''pending'' else ''none''))"
    by (simp add: basePayload_def form_fields_def)
  show ?thesis
    apply (rule exI [of _ i], rule exI [of _ url], rule exI [of _ ?doc])
    apply (intro conjI)
    apply (rule 1, rule 2, rule 3, rule 4, rule 5(1), rule 5(2), rule 5(3), rule 6, rule 7)
    done
qed

theorem upload_first_document_fields_witness:
  "Toast_success msg_success_A \<in> set (emitted with_logo (onSubmit_A sample_env sample_data with_logo))
   \<and> (\<exists>i. docs (onSubmit_A sample_env sample_data with_logo) =
       [(i,
         [(''email'', JStr ''a@b.com''), (''requestDate'', JStr ''2024-01-01''),
          (''kamName'', JStr ''Jane''), (''brandName'', JStr ''Acme''),
          (''vendorName'', JStr ''Vendor Co''), (''sisType'', JStr ''Standard''),
          (''retoolLink'', JStr []), (''goLiveDate'', JStr ''2024-02-01''),
          (''logoUrl'', JStr (''https://storage.example/'' @ path_A 1705 sample_logo)),
          (''createdAt'', JStr ''2024-01-01T00:00:00.000Z'')])])"
proof -
  have w: "Toast_success msg_success_A
             \<in> set (emitted with_logo (onSubmit_A sample_env sample_data with_logo))"
    by (simp add: A_defs with_logo_def initial_def sample_env_def Let_def)
  have e: "docs with_logo = []" "brandLogo with_logo = Some sample_logo"
    "now_ms sample_env = 1705" "createdAt sample_env = ''2024-01-01T00:00:00.000Z''"
    "downloadURL sample_env p = Inr (''https://storage.example/'' @ p)" for p
    by (simp_all add: with_logo_def initial_def sample_env_def)
  from upload_first_document_fields [OF w, of sample_data None "[]"] show ?thesis
    using w unfolding e by (auto simp add: sample_data_def)
qed

section \<open>Strategy B without a file\<close>

text \<open>
  Claim C5, as the code has it. In a Strategy B submission with no file selected whose
  write the store accepts, exactly one document is appended: the eight form fields,
  \<open>logoUrl\<close> null, \<open>uploadStatus\<close> \<open>none\<close> and \<open>createdAt\<close>. Success is signalled
  right after the \<open>addDoc\<close> call, nothing is uploaded, no observer is registered and
  \<open>updateDoc\<close> is never called, so nothing patches the document afterwards.
\<close>

theorem no_file_single_document:
  assumes "brandLogo s = None" and "addDocResult ev = Inr i"
  shows "docs (run_B ev d s) =
           docs s @ [(i, form_fields d @ [(''logoUrl'', JNull), (''uploadStatus'', JStr ''none''),
                                          (''createdAt'', JStr (createdAt ev))])]
       \<and> emitted s (run_B ev d s) =
           [AddDoc (form_fields d @ [(''logoUrl'', JNull), (''uploadStatus'', JStr ''none''),
                                     (''createdAt'', JStr (createdAt ev))]),
            Toast_success ''Request submitted successfully!'', SetTimeout 2500]
       \<and> isSubmitted (run_B ev d s)
       \<and> bgUploads (run_B ev d s) = bgUploads s
       \<and> blobs (run_B ev d s) = blobs s"
  using assms
  by (simp add: B_defs Let_def basePayload_def msg_success_B_def display_delay_B_def)

theorem no_file_single_document_witness:
  "brandLogo initial = None \<and> addDocResult sample_env = Inr ''doc1''
   \<and> docs (run_B sample_env sample_data initial) =
       [(''doc1'',
         [(''email'', JStr ''a@b.com''), (''requestDate'', JStr ''2024-01-01''),
          (''kamName'', JStr ''Jane''), (''brandName'', JStr ''Acme''),
          (''vendorName'', JStr ''Vendor Co''), (''sisType'', JStr ''Standard''),
          (''retoolLink'', JStr []), (''goLiveDate'', JStr ''2024-02-01''),
          (''logoUrl'', JNull), (''uploadStatus'', JStr ''none''),
          (''createdAt'', JStr ''2024-01-01T00:00:00.000Z'')])]
   \<and> bgUploads (run_B sample_env sample_data initial) = []"
proof -
  have h: "brandLogo initial = None" "addDocResult sample_env = Inr ''doc1''"
    by (simp_all add: initial_def sample_env_def)
  from no_file_single_document [OF h, of sample_data] h show ?thesis
    by (simp add: initial_def sample_env_def form_fields_def sample_data_def sis_string_def)
qed

text \<open>
  The claim as first stated (every such submission creates a document) fails when the
  store refuses the write: the \<open>catch\<close> block shows the failure and nothing is stored.
\<close>

theorem rejected_write_creates_nothing:
  "brandLogo initial = None
   \<and> addDocResult write_rejected =
       Inl \<lparr>code = Some ''permission-denied'', message = Some ''Missing or insufficient permissions.''\<rparr>
   \<and> docs (run_B write_rejected sample_data initial) = []
   \<and> \<not> isSubmitted (run_B write_rejected sample_data initial)
   \<and> effects (run_B write_rejected sample_data initial) =
       [AddDoc (basePayload sample_data None ''2024-01-01T00:00:00.000Z''),
        Toast_error ''Submission failed: Missing or insufficient permissions.'']"
  by (simp add: B_defs Let_def write_rejected_def sample_env_def initial_def or_else_def)

section \<open>Strategy B with a file\<close>

text \<open>
  Claim C1, as the code has it. In a Strategy B submission with a file whose write the
  store accepts under a new identifier, \<open>onSubmit\<close> appends exactly one document, with
  \<open>uploadStatus\<close> \<open>pending\<close> and \<open>logoUrl\<close> null. The background upload then calls
  \<open>updateDoc\<close> at most once. When the upload completes, the URL is resolved and the
  patch is accepted, the document reads \<open>complete\<close> with that URL as \<open>logoUrl\<close> and no
  \<open>uploadError\<close>; when the upload fails and the patch is accepted, it reads \<open>failed\<close>
  with a non-empty \<open>uploadError\<close> and \<open>logoUrl\<close> still null. In every case the store
  holds that one document in one of the three forms, never a mix of the two patches.
\<close>

theorem background_patch_at_most_once:
  assumes "brandLogo s = Some f" and "addDocResult ev = Inr i" and "i \<notin> fst ` set (docs s)"
  shows "docs (onSubmit_B ev d s) = docs s @ [(i, pending_doc d (createdAt ev))]
       \<and> get_field (pending_doc d (createdAt ev)) ''uploadStatus'' = Some (JStr ''pending'')
       \<and> get_field (pending_doc d (createdAt ev)) ''logoUrl'' = Some JNull
       \<and> length (filter is_UpdateDoc (emitted s (run_B ev d s))) \<le> 1
       \<and> (\<forall>url. upload ev = Some Completed \<and> downloadURL ev (path_B i (now_ms ev) f) = Inr url
                 \<and> updateDocResult ev = None \<longrightarrow>
             docs (run_B ev d s) = docs s @ [(i, complete_doc d (createdAt ev) url f)]
           \<and> get_field (complete_doc d (createdAt ev) url f) ''uploadStatus'' = Some (JStr ''complete'')
           \<and> get_field (complete_doc d (createdAt ev) url f) ''logoUrl'' = Some (JStr url)
           \<and> get_field (complete_doc d (createdAt ev) url f) ''uploadError'' = None)
       \<and> (\<forall>e. upload ev = Some (Errored e) \<and> updateDocResult ev = None \<longrightarrow>
             docs (run_B ev d s) = docs s @ [(i, failed_doc d (createdAt ev) e)]
           \<and> get_field (failed_doc d (createdAt ev) e) ''uploadStatus'' = Some (JStr ''failed'')
           \<and> (\<exists>m. m \<noteq> [] \<and> get_field (failed_doc d (createdAt ev) e) ''uploadError'' = Some (JStr m))
           \<and> get_field (failed_doc d (createdAt ev) e) ''logoUrl'' = Some JNull)
       \<and> (docs (run_B ev d s) = docs s @ [(i, pending_doc d (createdAt ev))]
          \<or> (\<exists>url. docs (run_B ev d s) = docs s @ [(i, complete_doc d (createdAt ev) url f)])
          \<or> (\<exists>e. docs (run_B ev d s) = docs s @ [(i, failed_doc d (createdAt ev) e)]))"
proof -
  note fresh = patch_docs_fresh [OF assms(3)]
  note run = B_run_docs [OF assms(1,2), of d]
  have a: "docs (onSubmit_B ev d s) = docs s @ [(i, pending_doc d (createdAt ev))]"
    by (rule B_begin_docs [OF assms(1,2)])
  have b: "get_field (pending_doc d (createdAt ev)) ''uploadStatus'' = Some (JStr ''pending'')"
    "get_field (pending_doc d (createdAt ev)) ''logoUrl'' = Some JNull"
    by (simp_all add: pending_doc_def form_fields_def)
  have c: "length (filter is_UpdateDoc (emitted s (run_B ev d s))) \<le> 1"
    by (rule B_run_updates [OF assms(1,2)])
  have d1: "docs (run_B ev d s) = docs s @ [(i, complete_doc d (createdAt ev) url f)]"
    if "upload ev = Some Completed" "downloadURL ev (path_B i (now_ms ev) f) = Inr url"
       "updateDocResult ev = None" for url
    using that run by (simp add: fresh merge_complete)
  have d2: "get_field (complete_doc d (createdAt ev) url f) ''uploadStatus'' = Some (JStr ''complete'')"
    "get_field (complete_doc d (createdAt ev) url f) ''logoUrl'' = Some (JStr url)"
    "get_field (complete_doc d (createdAt ev) url f) ''uploadError'' = None" for url
    by (simp_all add: complete_doc_def form_fields_def)
  have e1: "docs (run_B ev d s) = docs s @ [(i, failed_doc d (createdAt ev) e)]"
    if "upload ev = Some (Errored e)" "updateDocResult ev = None" for e
    using that run by (simp add: fresh merge_failed)
  have e2: "get_field (failed_doc d (createdAt ev) e) ''uploadStatus'' = Some (JStr ''failed'')"
    "get_field (failed_doc d (createdAt ev) e) ''uploadError''
       = Some (JStr (or_else (message e) ''Upload failed''))"
    "get_field (failed_doc d (createdAt ev) e) ''logoUrl'' = Some JNull" for e
    by (simp_all add: failed_doc_def form_fields_def)
  have e3: "or_else (message e) ''Upload failed'' \<noteq> []" for e
    by (rule or_else_nonempty) simp
  have g: "docs (run_B ev d s) = docs s @ [(i, pending_doc d (createdAt ev))]
          \<or> (\<exists>url. docs (run_B ev d s) = docs s @ [(i, complete_doc d (createdAt ev) url f)])
          \<or> (\<exists>e. docs (run_B ev d s) = docs s @ [(i, failed_doc d (createdAt ev) e)])"
    using run
    by (auto simp add: fresh merge_complete merge_failed
         split: option.splits upload_event.splits sum.splits)
  show ?thesis
    using a b c d1 d2 e1 e2 e3 g by (intro conjI allI impI) blast+
qed

theorem background_patch_at_most_once_witness:
  "brandLogo with_logo = Some sample_logo
   \<and> addDocResult sample_env = Inr ''doc1'' \<and> addDocResult upload_rejected = Inr ''doc1''
   \<and> ''doc1'' \<notin> fst ` set (docs with_logo)
   \<and> upload sample_env = Some Completed \<and> updateDocResult sample_env = None
   \<and> upload upload_rejected = Some (Errored unauthorized) \<and> updateDocResult upload_rejected = None
   \<and> docs (onSubmit_B sample_env sample_data with_logo) =
        [(''doc1'', pending_doc sample_data ''2024-01-01T00:00:00.000Z'')]
   \<and> docs (run_B sample_env sample_data with_logo) =
        [(''doc1'', complete_doc sample_data ''2024-01-01T00:00:00.000Z''
                     (''https://storage.example/'' @ path_B ''doc1'' 1705 sample_logo) sample_logo)]
   \<and> docs (run_B upload_rejected sample_data with_logo) =
        [(''doc1'', failed_doc sample_data ''2024-01-01T00:00:00.000Z'' unauthorized)]"
  using background_patch_at_most_once [of with_logo sample_logo sample_env "''doc1''" sample_data]
    background_patch_at_most_once [of with_logo sample_logo upload_rejected "''doc1''" sample_data]
  by (simp add: with_logo_def initial_def sample_env_def upload_rejected_def)

text \<open>
  The claim as first stated (the document is eventually patched exactly once) fails when
  the upload completes but the URL of the object cannot be resolved: the completion
  observer only logs, \<open>updateDoc\<close> is never called and the document stays \<open>pending\<close>.
\<close>

theorem pending_never_patched:
  "brandLogo with_logo = Some sample_logo
   \<and> addDocResult url_rejected = Inr ''doc1''
   \<and> upload url_rejected = Some Completed
   \<and> docs (run_B url_rejected sample_data with_logo) =
        [(''doc1'', pending_doc sample_data ''2024-01-01T00:00:00.000Z'')]
   \<and> get_field (pending_doc sample_data ''2024-01-01T00:00:00.000Z'') ''uploadStatus''
        = Some (JStr ''pending'')
   \<and> filter is_UpdateDoc (effects (run_B url_rejected sample_data with_logo)) = []"
  by (simp add: B_defs Let_def url_rejected_def sample_env_def with_logo_def initial_def
      basePayload_pending pending_doc_def form_fields_def)

section \<open>Error notices\<close>

text \<open>
  Claim C6. Strategy A turns the error that reached its \<open>catch\<close> block into the notice
  \<open>Submission failed: \<close> followed by: the storage-rules message when the error code
  contains \<open>storage/unauthorized\<close> (so for that code itself); otherwise the quota message
  when the code contains \<open>storage/quota-exceeded\<close> (so for that code itself); otherwise the timeout message when the lower-cased error
  message contains \<open>timed out\<close> (as the timer's own error does); otherwise the error's
  message, or the default sentence when the message is missing or empty. In Strategy B,
  once the write is accepted, an upload failure leaves the submission successful; it is
  shown after the success notice as \<open>Logo upload failed, but your request was saved.\<close>,
  and no run with an accepted write shows a \<open>Submission failed\<close> notice.
\<close>

theorem error_notices:
  "(code e = Some ''storage/unauthorized'' \<longrightarrow>
      friendly_A e = ''Upload blocked by Storage rules. Please allow uploads for this bucket (brand-logos/*) or sign in.'')
 \<and> (code e = Some ''storage/quota-exceeded'' \<longrightarrow>
      friendly_A e = ''Storage quota exceeded for the bucket.'')
 \<and> (opt_includes (code e) ''storage/unauthorized'' \<longrightarrow>
      friendly_A e = ''Upload blocked by Storage rules. Please allow uploads for this bucket (brand-logos/*) or sign in.'')
 \<and> (\<not> opt_includes (code e) ''storage/unauthorized'' \<and> opt_includes (code e) ''storage/quota-exceeded'' \<longrightarrow>
      friendly_A e = ''Storage quota exceeded for the bucket.'')
 \<and> (\<not> opt_includes (code e) ''storage/unauthorized'' \<and> \<not> opt_includes (code e) ''storage/quota-exceeded''
      \<and> opt_includes (map_option toLowerCase (message e)) ''timed out'' \<longrightarrow>
      friendly_A e = ''Upload timed out. Please check your network or Storage CORS/rules.'')
 \<and> friendly_A timeout_error = ''Upload timed out. Please check your network or Storage CORS/rules.''
 \<and> (\<not> opt_includes (code e) ''storage/unauthorized'' \<and> \<not> opt_includes (code e) ''storage/quota-exceeded''
      \<and> \<not> opt_includes (map_option toLowerCase (message e)) ''timed out'' \<longrightarrow>
      friendly_A e = (case message e of
                        None \<Rightarrow> ''Failed to submit request. Please try again.''
                      | Some m \<Rightarrow> if m = [] then ''Failed to submit request. Please try again.'' else m))
 \<and> (brandLogo s = Some f \<and> rejection_A ev f = Some e \<longrightarrow>
      last (emitted s (onSubmit_A ev d s)) = Toast_error (''Submission failed: '' @ friendly_A e))
 \<and> (brandLogo s = Some f \<and> addDocResult ev = Inr i \<and> upload ev = Some (Errored e) \<longrightarrow>
      isSubmitted (onSubmit_B ev d s) \<and> isSubmitted (run_B ev d s)
    \<and> emitted s (run_B ev d s) =
           [AddDoc (pending_doc d (createdAt ev)),
            UploadBytesResumable (path_B i (now_ms ev) f) f,
            Toast_success ''Request submitted! Logo will finish uploading in background.'',
            SetTimeout 2500,
            UpdateDoc i (patch_failed e),
            Toast_error ''Logo upload failed, but your request was saved.''])
 \<and> (addDocResult ev = Inr i \<longrightarrow>
      (\<forall>m. Toast_error (''Submission failed: '' @ m) \<notin> set (emitted s (run_B ev d s))))"
proof -
  have 0: "code e = Some ''storage/unauthorized'' \<Longrightarrow> friendly_A e = msg_blocked"
    "code e = Some ''storage/quota-exceeded'' \<Longrightarrow> friendly_A e = msg_quota"
    by (simp_all add: friendly_A_def opt_includes_def)
  have 1: "opt_includes (code e) ''storage/unauthorized'' \<Longrightarrow> friendly_A e = msg_blocked"
    by (simp add: friendly_A_def)
  have 2: "\<not> opt_includes (code e) ''storage/unauthorized'' \<Longrightarrow>
           opt_includes (code e) ''storage/quota-exceeded'' \<Longrightarrow> friendly_A e = msg_quota"
    by (simp add: friendly_A_def)
  have 3: "\<not> opt_includes (code e) ''storage/unauthorized'' \<Longrightarrow>
           \<not> opt_includes (code e) ''storage/quota-exceeded'' \<Longrightarrow>
           opt_includes (map_option toLowerCase (message e)) ''timed out'' \<Longrightarrow>
           friendly_A e = msg_timeout"
    by (simp add: friendly_A_def)
  have 4: "\<not> opt_includes (code e) ''storage/unauthorized'' \<Longrightarrow>
           \<not> opt_includes (code e) ''storage/quota-exceeded'' \<Longrightarrow>
           \<not> opt_includes (map_option toLowerCase (message e)) ''timed out'' \<Longrightarrow>
           friendly_A e = (case message e of None \<Rightarrow> msg_default_A
                           | Some m \<Rightarrow> if m = [] then msg_default_A else m)"
    by (simp add: friendly_A_def or_else_def)
  show ?thesis
    using 0 1 2 3 4 friendly_timeout A_failure_toast [of s f ev e d]
      B_upload_error_run [of s f ev i e d] B_no_submission_failure [of ev i _ s d]
    unfolding msg_blocked_def msg_quota_def msg_timeout_def msg_default_A_def
    by (intro conjI impI allI) (simp_all only: simp_thms)
qed

theorem error_notices_witness:
  "opt_includes (code unauthorized) ''storage/unauthorized''
   \<and> friendly_A unauthorized =
       ''Upload blocked by Storage rules. Please allow uploads for this bucket (brand-logos/*) or sign in.''
   \<and> friendly_A \<lparr>code = Some ''storage/quota-exceeded'', message = Some ''Quota exceeded''\<rparr> =
       ''Storage quota exceeded for the bucket.''
   \<and> friendly_A \<lparr>code = Some ''deadline-exceeded'', message = Some ''Request Timed Out''\<rparr> =
       ''Upload timed out. Please check your network or Storage CORS/rules.''
   \<and> friendly_A \<lparr>code = Some ''unavailable'', message = Some ''Backend unavailable''\<rparr> =
       ''Backend unavailable''
   \<and> friendly_A \<lparr>code = None, message = None\<rparr> = ''Failed to submit request. Please try again.''
   \<and> brandLogo with_logo = Some sample_logo \<and> addDocResult upload_rejected = Inr ''doc1''
   \<and> upload upload_rejected = Some (Errored unauthorized)
   \<and> rejection_A upload_rejected sample_logo = Some unauthorized
   \<and> last (emitted with_logo (onSubmit_A upload_rejected sample_data with_logo)) =
       Toast_error ''Submission failed: Upload blocked by Storage rules. Please allow uploads for this bucket (brand-logos/*) or sign in.''
   \<and> isSubmitted (run_B upload_rejected sample_data with_logo)
   \<and> emitted with_logo (run_B upload_rejected sample_data with_logo) =
           [AddDoc (pending_doc sample_data ''2024-01-01T00:00:00.000Z''),
            UploadBytesResumable (path_B ''doc1'' 1705 sample_logo) sample_logo,
            Toast_success ''Request submitted! Logo will finish uploading in background.'',
            SetTimeout 2500,
            UpdateDoc ''doc1'' (patch_failed unauthorized),
            Toast_error ''Logo upload failed, but your request was saved.'']"
proof -
  note ev = opt_includes_def toLowerCase_def lower_char_def lower_table_def unauthorized_def
  have a: "opt_includes (code unauthorized) ''storage/unauthorized''"
    by (simp add: ev)
  have b: "brandLogo with_logo = Some sample_logo" "addDocResult upload_rejected = Inr ''doc1''"
    "upload upload_rejected = Some (Errored unauthorized)"
    "rejection_A upload_rejected sample_logo = Some unauthorized"
    by (simp_all add: with_logo_def initial_def upload_rejected_def sample_env_def rejection_A_def)
  have c: "now_ms upload_rejected = 1705" "createdAt upload_rejected = ''2024-01-01T00:00:00.000Z''"
    by (simp_all add: upload_rejected_def sample_env_def)
  from error_notices [of unauthorized with_logo sample_logo upload_rejected sample_data "''doc1''"]
    a b c
  have u: "friendly_A unauthorized =
       ''Upload blocked by Storage rules. Please allow uploads for this bucket (brand-logos/*) or sign in.''"
    and r: "last (emitted with_logo (onSubmit_A upload_rejected sample_data with_logo)) =
       Toast_error (''Submission failed: '' @ friendly_A unauthorized)"
    and t: "isSubmitted (run_B upload_rejected sample_data with_logo)"
    and l: "emitted with_logo (run_B upload_rejected sample_data with_logo) =
           [AddDoc (pending_doc sample_data ''2024-01-01T00:00:00.000Z''),
            UploadBytesResumable (path_B ''doc1'' 1705 sample_logo) sample_logo,
            Toast_success ''Request submitted! Logo will finish uploading in background.'',
            SetTimeout 2500,
            UpdateDoc ''doc1'' (patch_failed unauthorized),
            Toast_error ''Logo upload failed, but your request was saved.'']"
    by simp_all
  have q: "friendly_A \<lparr>code = Some ''storage/quota-exceeded'', message = Some ''Quota exceeded''\<rparr> =
       ''Storage quota exceeded for the bucket.''"
    using error_notices [where e = "\<lparr>code = Some ''storage/quota-exceeded'', message = Some ''Quota exceeded''\<rparr>"]
    by (simp add: ev)
  have o: "friendly_A \<lparr>code = Some ''deadline-exceeded'', message = Some ''Request Timed Out''\<rparr> =
       ''Upload timed out. Please check your network or Storage CORS/rules.''"
    using error_notices [where e = "\<lparr>code = Some ''deadline-exceeded'', message = Some ''Request Timed Out''\<rparr>"]
    by (simp add: ev)
  have g: "friendly_A \<lparr>code = Some ''unavailable'', message = Some ''Backend unavailable''\<rparr> =
       ''Backend unavailable''"
    using error_notices [where e = "\<lparr>code = Some ''unavailable'', message = Some ''Backend unavailable''\<rparr>"]
    by (simp add: ev)
  have n: "friendly_A \<lparr>code = None, message = None\<rparr> = ''Failed to submit request. Please try again.''"
    using error_notices [where e = "\<lparr>code = None, message = None\<rparr>"]
    by (simp add: ev)
  from a b u r t l q o g n show ?thesis
    by (simp only: simp_thms append.simps)
qed

section \<open>The phases of the form\<close>





section \<open>File selection\<close>

text \<open>
  Claim C10. \<open>handleLogoUpload\<close> is the same function in both variants. A selected file
  of more than 5 * 1024 * 1024 bytes is rejected with an error notice, and the selected
  file and its preview stay as they were. A file of exactly that size or less becomes the
  selected file, and the preview becomes what the reader produced for it.
\<close>

theorem logo_size_ceiling:
  "(size_bytes f > 5 * 1024 * 1024 \<longrightarrow>
      handleLogoUpload (Some f) r s =
        s\<lparr>effects := effects s @ [Toast_error ''File size should be less than 5MB'']\<rparr>
    \<and> brandLogo (handleLogoUpload (Some f) r s) = brandLogo s
    \<and> logoPreview (handleLogoUpload (Some f) r s) = logoPreview s)
 \<and> (size_bytes f \<le> 5 * 1024 * 1024 \<longrightarrow>
      handleLogoUpload (Some f) r s = s\<lparr>brandLogo := Some f, logoPreview := r\<rparr>)"
  by (simp add: handleLogoUpload_def max_logo_bytes_def say_def)

theorem logo_size_ceiling_witness:
  "size_bytes (sample_logo\<lparr>size_bytes := 5242881\<rparr>) > 5 * 1024 * 1024
   \<and> brandLogo (handleLogoUpload (Some (sample_logo\<lparr>size_bytes := 5242881\<rparr>)) (JStr ''data:x'') with_logo)
       = Some sample_logo
   \<and> logoPreview (handleLogoUpload (Some (sample_logo\<lparr>size_bytes := 5242881\<rparr>)) (JStr ''data:x'') with_logo)
       = JStr ''data:image/png;base64,AAAA''
   \<and> size_bytes (sample_logo\<lparr>size_bytes := 5242880\<rparr>) \<le> 5 * 1024 * 1024
   \<and> brandLogo (handleLogoUpload (Some (sample_logo\<lparr>size_bytes := 5242880\<rparr>)) (JStr ''data:x'') with_logo)
       = Some (sample_logo\<lparr>size_bytes := 5242880\<rparr>)
   \<and> logoPreview (handleLogoUpload (Some (sample_logo\<lparr>size_bytes := 5242880\<rparr>)) (JStr ''data:x'') with_logo)
       = JStr ''data:x''"
  using logo_size_ceiling [of "sample_logo\<lparr>size_bytes := 5242881\<rparr>" "JStr ''data:x''" with_logo]
    logo_size_ceiling [of "sample_logo\<lparr>size_bytes := 5242880\<rparr>" "JStr ''data:x''" with_logo]
  by (simp add: with_logo_def initial_def sample_logo_def)

end
